theory Spec2Isabelle
  imports Main
begin

section \<open>Call disposition: the data model\<close>

text \<open>
  The enumerations of \<^verbatim>\<open>types/Calling\<close> and \<^verbatim>\<open>types/CallDisposition\<close>. Every member is
  written \<^verbatim>\<open>Enum_Member\<close> for the source's \<^verbatim>\<open>Enum.Member\<close>.
\<close>

datatype CallMode = CallMode_Direct | CallMode_Group | CallMode_Adhoc

datatype CallType = CallType_Audio | CallType_Video | CallType_Group | CallType_Adhoc

datatype CallDirection = CallDirection_Incoming | CallDirection_Outgoing

text \<open>
  \<^verbatim>\<open>CallEvent = LocalCallEvent | RemoteCallEvent\<close>: the two enumerations are disjoint,
  so the union is one datatype.
\<close>

datatype CallEvent =
    LocalCallEvent_Started
  | LocalCallEvent_Ringing
  | LocalCallEvent_Accepted
  | LocalCallEvent_Declined
  | LocalCallEvent_Hangup
  | LocalCallEvent_RemoteHangup
  | LocalCallEvent_Missed
  | LocalCallEvent_Delete
  | RemoteCallEvent_Accepted
  | RemoteCallEvent_NotAccepted
  | RemoteCallEvent_Delete

text \<open>
  \<^verbatim>\<open>CallStatus\<close>: the ten keys of the table \<^verbatim>\<open>statusToProto\<close>, which is a
  \<^verbatim>\<open>Record<CallStatus, ...>\<close>.
\<close>

datatype CallStatus =
    CallStatusValue_Accepted
  | CallStatusValue_Declined
  | CallStatusValue_Deleted
  | CallStatusValue_Missed
  | CallStatusValue_Pending
  | CallStatusValue_GenericGroupCall
  | CallStatusValue_OutgoingRing
  | CallStatusValue_Ringing
  | CallStatusValue_Joined
  | CallStatusValue_JoinedAdhoc

text \<open>
  Modelled from the spec: the declarations of \<^verbatim>\<open>DirectCallStatus\<close>, \<^verbatim>\<open>GroupCallStatus\<close> and
  \<^verbatim>\<open>AdhocCallStatus\<close> (module \<^verbatim>\<open>types/CallDisposition\<close>) are not among the sources. The
  specification lists the direct states as Pending, Accepted, Missed, Declined, Deleted, the
  group states as GenericGroupCall, OutgoingRing, Ringing, Joined, Accepted, Missed,
  Declined, Deleted, and the adhoc states as Pending, Joined, Deleted, where the joined
  state of an adhoc call is the status value JoinedAdhoc that is synced as Accepted. Each
  member is the status value of the same name: the keys of \<^verbatim>\<open>statusToProto\<close> are all the
  values a \<^verbatim>\<open>CallStatus\<close> has, and there is one Deleted, one Accepted, one Missed, one
  Declined and one Pending among them.
\<close>

abbreviation DirectCallStatus_Pending :: CallStatus where
  "DirectCallStatus_Pending \<equiv> CallStatusValue_Pending"
abbreviation DirectCallStatus_Accepted :: CallStatus where
  "DirectCallStatus_Accepted \<equiv> CallStatusValue_Accepted"
abbreviation DirectCallStatus_Missed :: CallStatus where
  "DirectCallStatus_Missed \<equiv> CallStatusValue_Missed"
abbreviation DirectCallStatus_Declined :: CallStatus where
  "DirectCallStatus_Declined \<equiv> CallStatusValue_Declined"
abbreviation DirectCallStatus_Deleted :: CallStatus where
  "DirectCallStatus_Deleted \<equiv> CallStatusValue_Deleted"

abbreviation GroupCallStatus_GenericGroupCall :: CallStatus where
  "GroupCallStatus_GenericGroupCall \<equiv> CallStatusValue_GenericGroupCall"
abbreviation GroupCallStatus_OutgoingRing :: CallStatus where
  "GroupCallStatus_OutgoingRing \<equiv> CallStatusValue_OutgoingRing"
abbreviation GroupCallStatus_Ringing :: CallStatus where
  "GroupCallStatus_Ringing \<equiv> CallStatusValue_Ringing"
abbreviation GroupCallStatus_Joined :: CallStatus where
  "GroupCallStatus_Joined \<equiv> CallStatusValue_Joined"
abbreviation GroupCallStatus_Accepted :: CallStatus where
  "GroupCallStatus_Accepted \<equiv> CallStatusValue_Accepted"
abbreviation GroupCallStatus_Missed :: CallStatus where
  "GroupCallStatus_Missed \<equiv> CallStatusValue_Missed"
abbreviation GroupCallStatus_Declined :: CallStatus where
  "GroupCallStatus_Declined \<equiv> CallStatusValue_Declined"
abbreviation GroupCallStatus_Deleted :: CallStatus where
  "GroupCallStatus_Deleted \<equiv> CallStatusValue_Deleted"

abbreviation AdhocCallStatus_Pending :: CallStatus where
  "AdhocCallStatus_Pending \<equiv> CallStatusValue_Pending"
abbreviation AdhocCallStatus_Joined :: CallStatus where
  "AdhocCallStatus_Joined \<equiv> CallStatusValue_JoinedAdhoc"
abbreviation AdhocCallStatus_Deleted :: CallStatus where
  "AdhocCallStatus_Deleted \<equiv> CallStatusValue_Deleted"

text \<open>
  Exceptions are values: \<^verbatim>\<open>strictAssert\<close> throws an error carrying its message,
  \<^verbatim>\<open>missingCaseError\<close> builds the error of an unhandled case, and the group transition
  throws a plain \<^verbatim>\<open>Error\<close>.
\<close>

datatype error =
    AssertionError string
  | MissingCaseError
  | PlainError string

definition strictAssert :: "bool \<Rightarrow> string \<Rightarrow> error + unit" where
  "strictAssert condition message =
     (if condition then Inr () else Inl (AssertionError message))"

section \<open>The status transition engine\<close>

definition transitionDirectCallStatus ::
  "CallStatus option \<Rightarrow> CallEvent \<Rightarrow> CallDirection \<Rightarrow> error + CallStatus" where
  "transitionDirectCallStatus status callEvent direction =
    (if callEvent = RemoteCallEvent_Delete \<or> callEvent = LocalCallEvent_Delete
        \<or> status = Some DirectCallStatus_Deleted
     then Inr DirectCallStatus_Deleted
     else if callEvent = RemoteCallEvent_Accepted \<or> callEvent = LocalCallEvent_Accepted
     then Inr DirectCallStatus_Accepted
     else if status = Some DirectCallStatus_Accepted
     then Inr DirectCallStatus_Accepted
     else if callEvent = RemoteCallEvent_NotAccepted
     then (if status = Some DirectCallStatus_Declined
           then Inr DirectCallStatus_Declined
           else Inr DirectCallStatus_Missed)
     else if callEvent = LocalCallEvent_Missed
     then Inr DirectCallStatus_Missed
     else if callEvent = LocalCallEvent_Declined
     then Inr DirectCallStatus_Declined
     else if callEvent = LocalCallEvent_Hangup
     then (if direction = CallDirection_Incoming
           then Inr DirectCallStatus_Declined
           else Inr DirectCallStatus_Missed)
     else if callEvent = LocalCallEvent_RemoteHangup
     then (if direction = CallDirection_Incoming
           then Inr DirectCallStatus_Missed
           else Inr DirectCallStatus_Declined)
     else if callEvent = LocalCallEvent_Started \<or> callEvent = LocalCallEvent_Ringing
     then Inr DirectCallStatus_Pending
     else Inl MissingCaseError)"

text \<open>
  The error thrown on a remote NotAccepted event carries the event in its message. The
  \<^verbatim>\<open>switch\<close> on the status has a \<^verbatim>\<open>default\<close> branch, which throws.
\<close>

definition transitionGroupCallStatus ::
  "CallStatus option \<Rightarrow> CallEvent \<Rightarrow> CallDirection \<Rightarrow> error + CallStatus" where
  "transitionGroupCallStatus status event direction =
    (if event = RemoteCallEvent_Delete \<or> event = LocalCallEvent_Delete
        \<or> status = Some GroupCallStatus_Deleted
     then Inr GroupCallStatus_Deleted
     else if status = Some GroupCallStatus_Accepted
     then Inr GroupCallStatus_Accepted
     else if event = RemoteCallEvent_NotAccepted
     then Inl (PlainError ''callHistoryDetails: Group calls shouldn't send NotAccepted'')
     else if event = RemoteCallEvent_Accepted \<or> event = LocalCallEvent_Accepted
     then (case status of
             None \<Rightarrow> Inr GroupCallStatus_Joined
           | Some s \<Rightarrow>
              (if s = GroupCallStatus_Ringing \<or> s = GroupCallStatus_Missed
                  \<or> s = GroupCallStatus_Declined
               then Inr GroupCallStatus_Accepted
               else if s = GroupCallStatus_GenericGroupCall
               then Inr GroupCallStatus_Joined
               else if s = GroupCallStatus_Joined \<or> s = GroupCallStatus_OutgoingRing
               then Inr s
               else Inl MissingCaseError))
     else if event = LocalCallEvent_Started
     then Inr GroupCallStatus_GenericGroupCall
     else if event = LocalCallEvent_Ringing
     then Inr GroupCallStatus_Ringing
     else if event = LocalCallEvent_Missed
     then Inr GroupCallStatus_Missed
     else if event = LocalCallEvent_Declined
     then Inr GroupCallStatus_Declined
     else if event = LocalCallEvent_Hangup
     then (if direction = CallDirection_Incoming
           then Inr GroupCallStatus_Declined
           else Inr GroupCallStatus_Missed)
     else if event = LocalCallEvent_RemoteHangup
     then (if direction = CallDirection_Incoming
           then Inr GroupCallStatus_Missed
           else Inr GroupCallStatus_Declined)
     else Inl MissingCaseError)"

definition transitionAdhocCallStatus ::
  "CallStatus option \<Rightarrow> CallEvent \<Rightarrow> CallDirection \<Rightarrow> error + CallStatus" where
  "transitionAdhocCallStatus status callEvent direction =
    (if callEvent = RemoteCallEvent_Delete \<or> callEvent = LocalCallEvent_Delete
        \<or> status = Some AdhocCallStatus_Deleted
     then Inr AdhocCallStatus_Deleted
     else if callEvent = RemoteCallEvent_Accepted \<or> callEvent = LocalCallEvent_Accepted
     then Inr AdhocCallStatus_Joined
     else if status = Some AdhocCallStatus_Joined
     then Inr AdhocCallStatus_Joined
     else if callEvent = RemoteCallEvent_NotAccepted
        \<or> callEvent = LocalCallEvent_Missed
        \<or> callEvent = LocalCallEvent_Declined
        \<or> callEvent = LocalCallEvent_Hangup
        \<or> callEvent = LocalCallEvent_RemoteHangup
        \<or> callEvent = LocalCallEvent_Started
        \<or> callEvent = LocalCallEvent_Ringing
     then Inr AdhocCallStatus_Pending
     else Inl MissingCaseError)"

section \<open>Call details, events and history records\<close>

text \<open>
  \<^verbatim>\<open>CallDetails\<close>, and its two extensions \<^verbatim>\<open>CallEventDetails\<close> (an observed event) and
  \<^verbatim>\<open>CallHistoryDetails\<close> (the stored record). A \<^verbatim>\<open>null\<close> ringer is \<open>None\<close>; timestamps
  are epoch milliseconds.
\<close>

record CallDetails =
  callId :: string
  peerId :: string
  ringerId :: "string option"
  mode :: CallMode
  type :: CallType
  direction :: CallDirection
  timestamp :: int

record CallEventDetails = CallDetails +
  event :: CallEvent
  eventSource :: string

record CallHistoryDetails = CallDetails +
  status :: CallStatus

section \<open>Timestamps and the transition of a record\<close>

text \<open>
  \<^verbatim>\<open>transitionTimestamp\<close>. \<^verbatim>\<open>latestTimestamp\<close> is the \<^verbatim>\<open>Math.max\<close> of the event's
  timestamp and the record's (0 when there is no record).
\<close>

definition transitionTimestamp ::
  "CallHistoryDetails option \<Rightarrow> CallEventDetails \<Rightarrow> error + int" where
  "transitionTimestamp callHistory callEvent =
    (let latestTimestamp =
           max (timestamp callEvent)
               (case callHistory of None \<Rightarrow> 0 | Some h \<Rightarrow> timestamp h)
     in case callHistory of
          None \<Rightarrow> Inr (timestamp callEvent)
        | Some h \<Rightarrow>
           (if status h = DirectCallStatus_Deleted
               \<or> status h = GroupCallStatus_Deleted
               \<or> status h = AdhocCallStatus_Deleted
            then Inr (timestamp h)
            else if status h = DirectCallStatus_Accepted
               \<or> status h = GroupCallStatus_Accepted
               \<or> status h = GroupCallStatus_Joined
               \<or> status h = AdhocCallStatus_Joined
            then (if event callEvent = RemoteCallEvent_Accepted
                  then Inr latestTimestamp
                  else Inr (timestamp h))
            else if status h = DirectCallStatus_Declined
               \<or> status h = GroupCallStatus_Declined
            then (if event callEvent = RemoteCallEvent_NotAccepted
                  then Inr latestTimestamp
                  else Inr (timestamp h))
            else if status h = DirectCallStatus_Pending
               \<or> status h = GroupCallStatus_GenericGroupCall
               \<or> status h = GroupCallStatus_OutgoingRing
               \<or> status h = GroupCallStatus_Ringing
               \<or> status h = DirectCallStatus_Missed
               \<or> status h = GroupCallStatus_Missed
               \<or> status h = AdhocCallStatus_Pending
            then Inr latestTimestamp
            else Inl MissingCaseError))"

text \<open>
  \<^verbatim>\<open>transitionCallHistory\<close>. The six assertions run in the source's order and the first
  that fails is the error thrown; then the status of the mode, then the timestamp. The
  record returned takes every field but \<^verbatim>\<open>timestamp\<close> and \<^verbatim>\<open>status\<close> from the event.
  \<^verbatim>\<open>callHistoryDetailsSchema.parse\<close> checks the shape of an object whose fields are typed
  here, and is the identity.
\<close>

definition assertSameCall ::
  "CallHistoryDetails option \<Rightarrow> CallEventDetails \<Rightarrow> error + unit" where
  "assertSameCall callHistory callEvent =
    (case callHistory of
       None \<Rightarrow> Inr ()
     | Some h \<Rightarrow>
        (case strictAssert (callId h = callId callEvent) ''callId must be same'' of
           Inl e \<Rightarrow> Inl e
         | Inr _ \<Rightarrow>
        (case strictAssert (peerId h = peerId callEvent) ''peerId must be same'' of
           Inl e \<Rightarrow> Inl e
         | Inr _ \<Rightarrow>
        (case strictAssert (ringerId callEvent = None \<or> ringerId h = ringerId callEvent)
                ''ringerId must be same if it exists'' of
           Inl e \<Rightarrow> Inl e
         | Inr _ \<Rightarrow>
        (case strictAssert (direction h = direction callEvent) ''direction must be same'' of
           Inl e \<Rightarrow> Inl e
         | Inr _ \<Rightarrow>
        (case strictAssert (type h = type callEvent) ''type must be same'' of
           Inl e \<Rightarrow> Inl e
         | Inr _ \<Rightarrow>
           strictAssert (mode h = mode callEvent) ''mode must be same''))))))"

definition transitionCallHistory ::
  "CallHistoryDetails option \<Rightarrow> CallEventDetails \<Rightarrow> error + CallHistoryDetails" where
  "transitionCallHistory callHistory callEvent =
    (case assertSameCall callHistory callEvent of
       Inl e \<Rightarrow> Inl e
     | Inr _ \<Rightarrow>
        (let prevStatus = map_option status callHistory in
         case (case mode callEvent of
                 CallMode_Direct \<Rightarrow>
                   transitionDirectCallStatus prevStatus (event callEvent) (direction callEvent)
               | CallMode_Group \<Rightarrow>
                   transitionGroupCallStatus prevStatus (event callEvent) (direction callEvent)
               | CallMode_Adhoc \<Rightarrow>
                   transitionAdhocCallStatus prevStatus (event callEvent) (direction callEvent))
         of
           Inl e \<Rightarrow> Inl e
         | Inr newStatus \<Rightarrow>
            (case transitionTimestamp callHistory callEvent of
               Inl e \<Rightarrow> Inl e
             | Inr newTimestamp \<Rightarrow>
                Inr \<lparr> callId = callId callEvent,
                      peerId = peerId callEvent,
                      ringerId = ringerId callEvent,
                      mode = mode callEvent,
                      type = type callEvent,
                      direction = direction callEvent,
                      timestamp = newTimestamp,
                      status = newStatus \<rparr>)))"

section \<open>Outbound sync of a call history record\<close>

text \<open>
  The members of the wire enumerations \<^verbatim>\<open>Proto.SyncMessage.CallEvent.Event\<close>,
  \<^verbatim>\<open>.Type\<close> and \<^verbatim>\<open>.Direction\<close> that the tables below name.
\<close>

datatype Proto_Event = Proto_Event_ACCEPTED | Proto_Event_NOT_ACCEPTED | Proto_Event_DELETE

datatype Proto_Type =
  Proto_Type_AUDIO_CALL | Proto_Type_VIDEO_CALL | Proto_Type_GROUP_CALL | Proto_Type_AD_HOC_CALL

datatype Proto_Direction = Proto_Direction_INCOMING | Proto_Direction_OUTGOING

fun directionToProto :: "CallDirection \<Rightarrow> Proto_Direction" where
  "directionToProto CallDirection_Incoming = Proto_Direction_INCOMING"
| "directionToProto CallDirection_Outgoing = Proto_Direction_OUTGOING"

fun typeToProto :: "CallType \<Rightarrow> Proto_Type" where
  "typeToProto CallType_Audio = Proto_Type_AUDIO_CALL"
| "typeToProto CallType_Video = Proto_Type_VIDEO_CALL"
| "typeToProto CallType_Group = Proto_Type_GROUP_CALL"
| "typeToProto CallType_Adhoc = Proto_Type_AD_HOC_CALL"

text \<open>The table \<^verbatim>\<open>statusToProto\<close>; a \<^verbatim>\<open>null\<close> entry is \<open>None\<close>.\<close>

fun statusToProto :: "CallStatus \<Rightarrow> Proto_Event option" where
  "statusToProto CallStatusValue_Accepted = Some Proto_Event_ACCEPTED"
| "statusToProto CallStatusValue_Declined = Some Proto_Event_NOT_ACCEPTED"
| "statusToProto CallStatusValue_Deleted = Some Proto_Event_DELETE"
| "statusToProto CallStatusValue_Missed = None"
| "statusToProto CallStatusValue_Pending = None"
| "statusToProto CallStatusValue_GenericGroupCall = None"
| "statusToProto CallStatusValue_OutgoingRing = None"
| "statusToProto CallStatusValue_Ringing = None"
| "statusToProto CallStatusValue_Joined = None"
| "statusToProto CallStatusValue_JoinedAdhoc = Some Proto_Event_ACCEPTED"

definition shouldSyncStatus :: "CallStatus \<Rightarrow> bool" where
  "shouldSyncStatus callStatus = (statusToProto callStatus \<noteq> None)"

text \<open>
  \<^verbatim>\<open>getBytesForPeerId\<close>. The byte decoders \<^verbatim>\<open>uuidToBytes\<close> and \<^verbatim>\<open>Bytes.fromBase64\<close> are
  imported helpers and are parameters here; a byte is a natural number.
\<close>

definition getBytesForPeerId ::
  "(string \<Rightarrow> nat list) \<Rightarrow> (string \<Rightarrow> nat list) \<Rightarrow> CallHistoryDetails \<Rightarrow> nat list" where
  "getBytesForPeerId uuidToBytes fromBase64 callHistory =
    (let bytes = (if mode callHistory = CallMode_Adhoc
                  then fromBase64 (peerId callHistory)
                  else uuidToBytes (peerId callHistory))
     in if length bytes = 0 then fromBase64 (peerId callHistory) else bytes)"

text \<open>
  The wire message \<^verbatim>\<open>Proto.SyncMessage.CallEvent\<close>; the call id and the timestamp are
  kept as the values that \<^verbatim>\<open>Long.fromString\<close> and \<^verbatim>\<open>Long.fromNumber\<close> are given.
\<close>

record Proto_CallEvent =
  proto_peerId :: "nat list"
  proto_callId :: string
  proto_type :: Proto_Type
  proto_direction :: Proto_Direction
  proto_event :: Proto_Event
  proto_timestamp :: int

definition getProtoForCallHistory ::
  "(string \<Rightarrow> nat list) \<Rightarrow> (string \<Rightarrow> nat list) \<Rightarrow> CallHistoryDetails
     \<Rightarrow> error + Proto_CallEvent" where
  "getProtoForCallHistory uuidToBytes fromBase64 callHistory =
    (case statusToProto (status callHistory) of
       None \<Rightarrow> Inl (AssertionError ''getProtoForCallHistory: Cannot create proto for status'')
     | Some ev \<Rightarrow>
        Inr \<lparr> proto_peerId = getBytesForPeerId uuidToBytes fromBase64 callHistory,
              proto_callId = callId callHistory,
              proto_type = typeToProto (type callHistory),
              proto_direction = directionToProto (direction callHistory),
              proto_event = ev,
              proto_timestamp = timestamp callHistory \<rparr>)"

text \<open>
  A job of \<^verbatim>\<open>singleProtoJobQueue\<close>: the content is kept unencoded. The queue is a list,
  \<^verbatim>\<open>add\<close> appends to it.
\<close>

record SingleProtoJob =
  job_serviceId :: string
  job_isSyncMessage :: bool
  job_callEvent :: Proto_CallEvent
  job_type :: string
  job_urgent :: bool

text \<open>
  \<^verbatim>\<open>updateRemoteCallHistory\<close>, as a function on the job queue. \<^verbatim>\<open>ourAci\<close> is what
  \<^verbatim>\<open>getCheckedAci\<close> finds in storage (it throws when there is none); every error thrown
  inside the \<^verbatim>\<open>try\<close> block is caught and logged, and nothing is queued then.
\<close>

definition updateRemoteCallHistory ::
  "(string \<Rightarrow> nat list) \<Rightarrow> (string \<Rightarrow> nat list) \<Rightarrow> string option
     \<Rightarrow> CallHistoryDetails \<Rightarrow> SingleProtoJob list \<Rightarrow> SingleProtoJob list" where
  "updateRemoteCallHistory uuidToBytes fromBase64 ourAci callHistory queue =
    (if \<not> shouldSyncStatus (status callHistory) then queue
     else case ourAci of
            None \<Rightarrow> queue
          | Some aci \<Rightarrow>
             (case getProtoForCallHistory uuidToBytes fromBase64 callHistory of
                Inl e \<Rightarrow> queue
              | Inr callEventProto \<Rightarrow>
                 queue @ [\<lparr> job_serviceId = aci,
                            job_isSyncMessage = True,
                            job_callEvent = callEventProto,
                            job_type = ''callEventSync'',
                            job_urgent = False \<rparr>]))"

section \<open>Lowering the timestamp of a stored group call\<close>

text \<open>
  A conversation, as far as \<^verbatim>\<open>getPeerIdFromConversation\<close> reads it. The test
  \<^verbatim>\<open>isAciString\<close> is an imported helper and is a parameter.
\<close>

datatype ConversationKind = Kind_direct | Kind_private | Kind_group

record Conversation =
  conversation_type :: ConversationKind
  serviceId :: "string option"
  groupId :: "string option"

definition getPeerIdFromConversation ::
  "(string \<Rightarrow> bool) \<Rightarrow> Conversation \<Rightarrow> error + string" where
  "getPeerIdFromConversation isAciString conversation =
    (if conversation_type conversation = Kind_direct
        \<or> conversation_type conversation = Kind_private
     then (case serviceId conversation of
             None \<Rightarrow> Inl (AssertionError ''ACI must exist for direct chat'')
           | Some s \<Rightarrow>
              (if isAciString s then Inr s
               else Inl (AssertionError ''ACI must exist for direct chat'')))
     else (case groupId conversation of
             None \<Rightarrow> Inl (AssertionError ''groupId must exist for group chat'')
           | Some g \<Rightarrow> Inr g))"

text \<open>
  The part of the application state these functions touch: the conversations that
  \<^verbatim>\<open>ConversationController.get\<close> finds, the call history table read by
  \<^verbatim>\<open>Data.getCallHistory\<close> (keyed by call id and peer id), and the records handed to
  \<^verbatim>\<open>Data.saveCallHistory\<close>, in order.
\<close>

record AppState =
  conversations :: "string \<rightharpoonup> Conversation"
  callHistoryTable :: "(string \<times> string) \<rightharpoonup> CallHistoryDetails"
  savedCallHistory :: "CallHistoryDetails list"

text \<open>
  \<^verbatim>\<open>saveCallHistory\<close>: the write to the call history table and the value returned, which
  is the record given on both of its return paths. The call history message it upserts or
  removes, the conversation counters and the UI notifications are kept outside this state.
\<close>

definition saveCallHistory ::
  "CallHistoryDetails \<Rightarrow> AppState \<Rightarrow> CallHistoryDetails \<times> AppState" where
  "saveCallHistory callHistory state =
    (callHistory,
     state\<lparr> callHistoryTable :=
              (callHistoryTable state)((callId callHistory, peerId callHistory) \<mapsto> callHistory),
            savedCallHistory := savedCallHistory state @ [callHistory] \<rparr>)"

definition updateLocalGroupCallHistoryTimestamp ::
  "(string \<Rightarrow> bool) \<Rightarrow> string \<Rightarrow> string \<Rightarrow> int \<Rightarrow> AppState
     \<Rightarrow> error + (CallHistoryDetails option \<times> AppState)" where
  "updateLocalGroupCallHistoryTimestamp isAciString conversationId theCallId newTimestamp state =
    (case conversations state conversationId of
       None \<Rightarrow> Inr (None, state)
     | Some conversation \<Rightarrow>
        (case getPeerIdFromConversation isAciString conversation of
           Inl e \<Rightarrow> Inl e
         | Inr thePeerId \<Rightarrow>
            (case callHistoryTable state (theCallId, thePeerId) of
               None \<Rightarrow> Inr (None, state)
             | Some prevCallHistory \<Rightarrow>
                (if newTimestamp \<ge> timestamp prevCallHistory
                 then Inr (Some prevCallHistory, state)
                 else (case saveCallHistory (prevCallHistory\<lparr> timestamp := newTimestamp \<rparr>) state
                       of (updatedCallHistory, state') \<Rightarrow>
                            Inr (Some updatedCallHistory, state'))))))"

section \<open>Concrete calls\<close>

text \<open>
  The incoming call with id 1 from the peer \<open>peer\<close>, in a given mode (with the call type
  of that mode: an audio call when direct), as a stored record with a given ringer, status
  and timestamp, and as an observed event with a given ringer, event and timestamp. The
  examples below are instances of these two.
\<close>

definition exampleType :: "CallMode \<Rightarrow> CallType" where
  "exampleType m =
     (case m of CallMode_Direct \<Rightarrow> CallType_Audio
              | CallMode_Group \<Rightarrow> CallType_Group
              | CallMode_Adhoc \<Rightarrow> CallType_Adhoc)"

definition exampleHistory ::
  "CallMode \<Rightarrow> string option \<Rightarrow> CallStatus \<Rightarrow> int \<Rightarrow> CallHistoryDetails" where
  "exampleHistory m ringer s ts =
     \<lparr> callId = ''1'', peerId = ''peer'', ringerId = ringer, mode = m,
       type = exampleType m, direction = CallDirection_Incoming, timestamp = ts,
       status = s \<rparr>"

definition exampleEvent ::
  "CallMode \<Rightarrow> string option \<Rightarrow> CallEvent \<Rightarrow> int \<Rightarrow> CallEventDetails" where
  "exampleEvent m ringer ev ts =
     \<lparr> callId = ''1'', peerId = ''peer'', ringerId = ringer, mode = m,
       type = exampleType m, direction = CallDirection_Incoming, timestamp = ts,
       event = ev, eventSource = ''example'' \<rparr>"

text \<open>
  A state with one group conversation \<open>conv\<close> of the group \<open>peer\<close>, holding the record of
  call 1 with status Ringing and timestamp 500.
\<close>

definition exampleState :: AppState where
  "exampleState =
     \<lparr> conversations =
         [''conv'' \<mapsto> \<lparr> conversation_type = Kind_group, serviceId = None,
                         groupId = Some ''peer'' \<rparr>],
       callHistoryTable =
         [(''1'', ''peer'') \<mapsto> exampleHistory CallMode_Group None GroupCallStatus_Ringing 500],
       savedCallHistory = [] \<rparr>"

section \<open>Properties of the transition engine\<close>

lemmas engine_defs =
  transitionCallHistory_def assertSameCall_def strictAssert_def transitionTimestamp_def
  transitionDirectCallStatus_def transitionGroupCallStatus_def transitionAdhocCallStatus_def
  Let_def

lemmas example_defs = exampleHistory_def exampleEvent_def exampleType_def

subsection \<open>Totality, and what a replayed event does\<close>

text \<open>
  Every status is handled by \<^verbatim>\<open>transitionTimestamp\<close>: its final
  \<^verbatim>\<open>missingCaseError\<close> is never reached.
\<close>

lemma transitionTimestamp_total:
  "\<exists>t. transitionTimestamp callHistory callEvent = Inr t"
  by (cases callHistory; cases "status (the callHistory)")
     (simp_all add: transitionTimestamp_def Let_def)

text \<open>
  The new timestamp is the record's or the later of the two; it depends on the record
  through its status and timestamp only.
\<close>

lemma transitionTimestamp_choice:
  assumes "transitionTimestamp (Some h) ev = Inr t"
  shows "t = timestamp h \<or> t = max (timestamp ev) (timestamp h)"
  using assms
  by (cases "status h"; cases "event ev = RemoteCallEvent_Accepted";
      cases "event ev = RemoteCallEvent_NotAccepted")
     (simp_all add: transitionTimestamp_def Let_def)

lemma transitionTimestamp_same_status:
  assumes "transitionTimestamp (Some h) ev = Inr t"
    and "status h' = status h" and "timestamp h' = t"
  shows "transitionTimestamp (Some h') ev = Inr t"
  using assms
  by (cases "status h"; cases "event ev = RemoteCallEvent_Accepted";
      cases "event ev = RemoteCallEvent_NotAccepted")
     (auto simp add: transitionTimestamp_def Let_def)

text \<open>
  The new timestamp differs from the record's exactly when the event is later and the
  record's status is transient, or accepted or joined under a remote Accepted event, or
  Declined under a remote NotAccepted event.
\<close>

lemma transitionTimestamp_moves:
  assumes "transitionTimestamp (Some h) ev = Inr t"
  shows "t \<noteq> timestamp h \<longleftrightarrow>
           timestamp h < timestamp ev
           \<and> (status h = CallStatusValue_Pending \<or> status h = CallStatusValue_Missed
                \<or> status h = CallStatusValue_GenericGroupCall
                \<or> status h = CallStatusValue_OutgoingRing
                \<or> status h = CallStatusValue_Ringing
              \<or> (status h = CallStatusValue_Accepted \<or> status h = CallStatusValue_Joined
                    \<or> status h = CallStatusValue_JoinedAdhoc)
                 \<and> event ev = RemoteCallEvent_Accepted
              \<or> status h = CallStatusValue_Declined
                 \<and> event ev = RemoteCallEvent_NotAccepted)"
  using assms
  by (cases "status h"; cases "event ev = RemoteCallEvent_Accepted";
      cases "event ev = RemoteCallEvent_NotAccepted")
     (auto simp add: transitionTimestamp_def Let_def)

text \<open>
  Each status machine maps its own result, under the same event, to itself.
\<close>

lemma transitionDirectCallStatus_replay:
  assumes "transitionDirectCallStatus st ev d = Inr s"
  shows "transitionDirectCallStatus (Some s) ev d = Inr s"
  using assms
  by (cases ev; cases d; cases "st = Some CallStatusValue_Deleted";
      cases "st = Some CallStatusValue_Accepted"; cases "st = Some CallStatusValue_Declined")
     (auto simp add: transitionDirectCallStatus_def)

lemma transitionGroupCallStatus_replay:
  assumes "transitionGroupCallStatus st ev d = Inr s"
  shows "transitionGroupCallStatus (Some s) ev d = Inr s"
proof (cases st)
  case None
  with assms show ?thesis
    by (cases ev; cases d) (auto simp add: transitionGroupCallStatus_def)
next
  case (Some p)
  with assms show ?thesis
    by (cases ev; cases d; cases p) (auto simp add: transitionGroupCallStatus_def)
qed

lemma transitionAdhocCallStatus_replay:
  assumes "transitionAdhocCallStatus st ev d = Inr s"
  shows "transitionAdhocCallStatus (Some s) ev d = Inr s"
  using assms
  by (cases ev; cases "st = Some CallStatusValue_Deleted";
      cases "st = Some CallStatusValue_JoinedAdhoc")
     (auto simp add: transitionAdhocCallStatus_def)

text \<open>
  A record returned by \<^verbatim>\<open>transitionCallHistory\<close> has the event's identity fields, so
  the same event passes the assertions against it.
\<close>

lemma transitionCallHistory_fields:
  assumes "transitionCallHistory prior ev = Inr r"
  shows "callId r = callId ev" "peerId r = peerId ev" "ringerId r = ringerId ev"
    "mode r = mode ev" "type r = type ev" "direction r = direction ev"
  using assms
  by (auto simp add: transitionCallHistory_def Let_def split: sum.splits)

lemma assertSameCall_replay:
  assumes "transitionCallHistory prior ev = Inr r"
  shows "assertSameCall (Some r) ev = Inr ()"
  using transitionCallHistory_fields [OF assms]
  by (simp add: assertSameCall_def strictAssert_def)

text \<open>
  When \<^verbatim>\<open>transitionCallHistory\<close> returns: the assertions hold, the status machine of
  the event's mode and the timestamp policy both return, and the record is built from the
  event and their two results.
\<close>

lemma transitionCallHistory_Inr_iff:
  "transitionCallHistory prior ev = Inr r \<longleftrightarrow>
     assertSameCall prior ev = Inr ()
     \<and> (\<exists>s t. (case mode ev of
                  CallMode_Direct \<Rightarrow>
                    transitionDirectCallStatus (map_option status prior) (event ev) (direction ev)
                | CallMode_Group \<Rightarrow>
                    transitionGroupCallStatus (map_option status prior) (event ev) (direction ev)
                | CallMode_Adhoc \<Rightarrow>
                    transitionAdhocCallStatus (map_option status prior) (event ev) (direction ev))
               = Inr s
            \<and> transitionTimestamp prior ev = Inr t
            \<and> r = \<lparr> callId = callId ev, peerId = peerId ev, ringerId = ringerId ev,
                    mode = mode ev, type = type ev, direction = direction ev,
                    timestamp = t, status = s \<rparr>)"
  unfolding transitionCallHistory_def Let_def
  by (cases "assertSameCall prior ev"; cases "transitionTimestamp prior ev"; cases "mode ev";
      cases "transitionDirectCallStatus (map_option status prior) (event ev) (direction ev)";
      cases "transitionGroupCallStatus (map_option status prior) (event ev) (direction ev)";
      cases "transitionAdhocCallStatus (map_option status prior) (event ev) (direction ev)")
     auto

subsection \<open>Deletion\<close>

text \<open>
  Claim C1. Deletion is absorbing. In each of the three modes, for every prior status (or
  none), every event and every direction: when the event is a delete event, local or
  remote, or the prior status is Deleted, the status machine returns Deleted. When the
  prior record's status is Deleted, \<^verbatim>\<open>transitionTimestamp\<close> returns the prior record's
  timestamp. So a record returned by \<^verbatim>\<open>transitionCallHistory\<close> from a deleted record is
  deleted and has the same timestamp.
\<close>

theorem deletion_is_absorbing:
  "((ev = RemoteCallEvent_Delete \<or> ev = LocalCallEvent_Delete
       \<or> prevStatus = Some CallStatusValue_Deleted) \<longrightarrow>
      transitionDirectCallStatus prevStatus ev dir = Inr DirectCallStatus_Deleted
    \<and> transitionGroupCallStatus prevStatus ev dir = Inr GroupCallStatus_Deleted
    \<and> transitionAdhocCallStatus prevStatus ev dir = Inr AdhocCallStatus_Deleted)
   \<and> (status callHistory = CallStatusValue_Deleted \<longrightarrow>
        transitionTimestamp (Some callHistory) callEvent = Inr (timestamp callHistory))
   \<and> (transitionCallHistory (Some callHistory) callEvent = Inr result \<longrightarrow>
        (event callEvent = RemoteCallEvent_Delete \<or> event callEvent = LocalCallEvent_Delete
           \<or> status callHistory = CallStatusValue_Deleted \<longrightarrow>
         status result = CallStatusValue_Deleted)
        \<and> (status callHistory = CallStatusValue_Deleted \<longrightarrow>
             timestamp result = timestamp callHistory))"
  by (auto simp add: transitionDirectCallStatus_def transitionGroupCallStatus_def
      transitionAdhocCallStatus_def transitionTimestamp_def transitionCallHistory_def Let_def
      split: sum.splits CallMode.splits)

theorem deletion_is_absorbing_witness:
  "transitionDirectCallStatus (Some CallStatusValue_Deleted) LocalCallEvent_Accepted
       CallDirection_Incoming = Inr DirectCallStatus_Deleted
   \<and> transitionGroupCallStatus (Some CallStatusValue_Deleted) LocalCallEvent_Accepted
       CallDirection_Incoming = Inr GroupCallStatus_Deleted
   \<and> transitionAdhocCallStatus (Some CallStatusValue_Deleted) LocalCallEvent_Accepted
       CallDirection_Incoming = Inr AdhocCallStatus_Deleted
   \<and> status (exampleHistory CallMode_Group None GroupCallStatus_Deleted 500)
       = CallStatusValue_Deleted
   \<and> transitionTimestamp
        (Some (exampleHistory CallMode_Group None GroupCallStatus_Deleted 500))
        (exampleEvent CallMode_Group None LocalCallEvent_Accepted 900) = Inr 500
   \<and> transitionCallHistory
        (Some (exampleHistory CallMode_Group None GroupCallStatus_Deleted 500))
        (exampleEvent CallMode_Group None LocalCallEvent_Accepted 900)
       = Inr (exampleHistory CallMode_Group None GroupCallStatus_Deleted 500)"
  using deletion_is_absorbing [where ev = LocalCallEvent_Accepted
      and prevStatus = "Some CallStatusValue_Deleted" and dir = CallDirection_Incoming
      and callHistory = "exampleHistory CallMode_Group None GroupCallStatus_Deleted 500"
      and callEvent = "exampleEvent CallMode_Group None LocalCallEvent_Accepted 900"
      and result = "exampleHistory CallMode_Group None GroupCallStatus_Deleted 500"]
  by (simp add: engine_defs example_defs)

subsection \<open>The ringer\<close>

text \<open>
  The assertion on the ringer: an event that names a ringer other than the record's is
  refused, and a transition on an event that names a ringer keeps the record's ringer.
\<close>

lemma different_ringerId_fails:
  assumes "ringerId callEvent \<noteq> None" and "ringerId callHistory \<noteq> ringerId callEvent"
  shows "\<exists>message. transitionCallHistory (Some callHistory) callEvent
           = Inl (AssertionError message)"
  using assms
  by (auto simp add: transitionCallHistory_def assertSameCall_def strictAssert_def)

lemma ringerId_kept_when_the_event_names_it:
  assumes "transitionCallHistory (Some callHistory) callEvent = Inr result"
    and "ringerId callEvent \<noteq> None"
  shows "ringerId result = ringerId callHistory"
  using assms
  by (auto simp add: transitionCallHistory_def assertSameCall_def strictAssert_def Let_def
      split: sum.splits if_splits)

text \<open>
  Claim C2. A known ringer is not erased by an event that lacks one. The code does not
  keep to this: the record returned is built from the event's \<^verbatim>\<open>ringerId\<close>, so a remote
  Accepted event (remote events never carry a ringer) on the pending direct call rung by
  \<open>peer\<close> passes the assertion and returns a record whose ringer is \<^verbatim>\<open>null\<close>. The next local
  event of that call, which names the ringer again, then fails the assertion
  \<^verbatim>\<open>ringerId must be same if it exists\<close> against the record so stored.
\<close>

theorem ringerId_erased_by_event_without_ringer:
  "transitionCallHistory
     (Some (exampleHistory CallMode_Direct (Some ''peer'') DirectCallStatus_Pending 100))
     (exampleEvent CallMode_Direct None RemoteCallEvent_Accepted 200)
    = Inr (exampleHistory CallMode_Direct None DirectCallStatus_Accepted 200)
   \<and> transitionCallHistory
     (Some (exampleHistory CallMode_Direct None DirectCallStatus_Accepted 200))
     (exampleEvent CallMode_Direct (Some ''peer'') LocalCallEvent_Accepted 300)
    = Inl (AssertionError ''ringerId must be same if it exists'')"
  by (simp add: engine_defs example_defs)

subsection \<open>Remote NotAccepted on a group call\<close>

text \<open>
  On an accepted group call a remote NotAccepted event raises nothing: the status
  machine returns Accepted before it looks at the event, and the record is returned
  unchanged.
\<close>

theorem group_NotAccepted_on_settled_status_returns:
  "transitionGroupCallStatus (Some GroupCallStatus_Accepted) RemoteCallEvent_NotAccepted
      CallDirection_Incoming = Inr GroupCallStatus_Accepted
   \<and> transitionCallHistory
        (Some (exampleHistory CallMode_Group None GroupCallStatus_Accepted 500))
        (exampleEvent CallMode_Group None RemoteCallEvent_NotAccepted 600)
       = Inr (exampleHistory CallMode_Group None GroupCallStatus_Accepted 500)"
  by (simp add: engine_defs example_defs)

text \<open>
  Claim C3, amended. For every prior group status other than Deleted and Accepted (no
  prior record included) and every direction, the group status machine raises an error on
  a remote NotAccepted event, and so does \<^verbatim>\<open>transitionCallHistory\<close> on a Group-mode
  event of that kind against a record of such a status. From Deleted the machine returns
  Deleted and from Accepted it returns Accepted, for every direction, and
  \<^verbatim>\<open>transitionCallHistory\<close> then returns the record of the event with the prior status and
  the prior timestamp.
\<close>

theorem group_NotAccepted_raises:
  "(prevStatus \<noteq> Some GroupCallStatus_Deleted \<and> prevStatus \<noteq> Some GroupCallStatus_Accepted
      \<longrightarrow>
      transitionGroupCallStatus prevStatus RemoteCallEvent_NotAccepted dir
        = Inl (PlainError ''callHistoryDetails: Group calls shouldn't send NotAccepted'')
      \<and> (mode callEvent = CallMode_Group \<and> event callEvent = RemoteCallEvent_NotAccepted
            \<and> map_option status callHistory = prevStatus
          \<longrightarrow> (\<exists>e. transitionCallHistory callHistory callEvent = Inl e)))
   \<and> transitionGroupCallStatus (Some GroupCallStatus_Deleted) RemoteCallEvent_NotAccepted dir
        = Inr GroupCallStatus_Deleted
   \<and> transitionGroupCallStatus (Some GroupCallStatus_Accepted) RemoteCallEvent_NotAccepted dir
        = Inr GroupCallStatus_Accepted
   \<and> (mode callEvent = CallMode_Group \<and> event callEvent = RemoteCallEvent_NotAccepted
        \<and> assertSameCall (Some prevCallHistory) callEvent = Inr ()
        \<and> (status prevCallHistory = GroupCallStatus_Deleted
             \<or> status prevCallHistory = GroupCallStatus_Accepted)
       \<longrightarrow> transitionCallHistory (Some prevCallHistory) callEvent
             = Inr \<lparr> callId = callId callEvent, peerId = peerId callEvent,
                     ringerId = ringerId callEvent, mode = mode callEvent,
                     type = type callEvent, direction = direction callEvent,
                     timestamp = timestamp prevCallHistory,
                     status = status prevCallHistory \<rparr>)"
proof -
  have raising: "transitionGroupCallStatus prevStatus RemoteCallEvent_NotAccepted d
        = Inl (PlainError ''callHistoryDetails: Group calls shouldn't send NotAccepted'')"
    if "prevStatus \<noteq> Some GroupCallStatus_Deleted"
      and "prevStatus \<noteq> Some GroupCallStatus_Accepted" for d
    using that by (simp add: transitionGroupCallStatus_def)
  have record_raising: "\<exists>e. transitionCallHistory callHistory callEvent = Inl e"
    if "prevStatus \<noteq> Some GroupCallStatus_Deleted"
      and "prevStatus \<noteq> Some GroupCallStatus_Accepted"
      and "mode callEvent = CallMode_Group" and "event callEvent = RemoteCallEvent_NotAccepted"
      and "map_option status callHistory = prevStatus"
    using that raising [of "direction callEvent"]
    by (auto simp add: transitionCallHistory_def Let_def split: sum.splits)
  have deleted: "transitionGroupCallStatus (Some GroupCallStatus_Deleted)
        RemoteCallEvent_NotAccepted dir = Inr GroupCallStatus_Deleted"
    by (simp add: transitionGroupCallStatus_def)
  have accepted: "transitionGroupCallStatus (Some GroupCallStatus_Accepted)
        RemoteCallEvent_NotAccepted dir = Inr GroupCallStatus_Accepted"
    by (simp add: transitionGroupCallStatus_def)
  have record_settled: "transitionCallHistory (Some prevCallHistory) callEvent
             = Inr \<lparr> callId = callId callEvent, peerId = peerId callEvent,
                     ringerId = ringerId callEvent, mode = mode callEvent,
                     type = type callEvent, direction = direction callEvent,
                     timestamp = timestamp prevCallHistory,
                     status = status prevCallHistory \<rparr>"
    if "mode callEvent = CallMode_Group" and "event callEvent = RemoteCallEvent_NotAccepted"
      and "assertSameCall (Some prevCallHistory) callEvent = Inr ()"
      and "status prevCallHistory = GroupCallStatus_Deleted
             \<or> status prevCallHistory = GroupCallStatus_Accepted"
    using that
    by (auto simp add: transitionCallHistory_def transitionGroupCallStatus_def
        transitionTimestamp_def Let_def)
  show ?thesis
    using raising record_raising deleted accepted record_settled by blast
qed

theorem group_NotAccepted_raises_witness:
  "Some GroupCallStatus_Ringing \<noteq> Some GroupCallStatus_Deleted
   \<and> Some GroupCallStatus_Ringing \<noteq> Some GroupCallStatus_Accepted
   \<and> transitionGroupCallStatus (Some GroupCallStatus_Ringing) RemoteCallEvent_NotAccepted
        CallDirection_Outgoing
       = Inl (PlainError ''callHistoryDetails: Group calls shouldn't send NotAccepted'')
   \<and> transitionCallHistory
        (Some (exampleHistory CallMode_Group None GroupCallStatus_Ringing 500))
        (exampleEvent CallMode_Group None RemoteCallEvent_NotAccepted 600)
       = Inl (PlainError ''callHistoryDetails: Group calls shouldn't send NotAccepted'')
   \<and> transitionGroupCallStatus (Some GroupCallStatus_Deleted) RemoteCallEvent_NotAccepted
        CallDirection_Outgoing = Inr GroupCallStatus_Deleted
   \<and> transitionGroupCallStatus (Some GroupCallStatus_Accepted) RemoteCallEvent_NotAccepted
        CallDirection_Outgoing = Inr GroupCallStatus_Accepted
   \<and> assertSameCall (Some (exampleHistory CallMode_Group None GroupCallStatus_Deleted 500))
        (exampleEvent CallMode_Group None RemoteCallEvent_NotAccepted 600) = Inr ()
   \<and> transitionCallHistory
        (Some (exampleHistory CallMode_Group None GroupCallStatus_Deleted 500))
        (exampleEvent CallMode_Group None RemoteCallEvent_NotAccepted 600)
       = Inr (exampleHistory CallMode_Group None GroupCallStatus_Deleted 500)"
  using group_NotAccepted_raises [where prevStatus = "Some GroupCallStatus_Ringing"
      and dir = CallDirection_Outgoing
      and callHistory = "Some (exampleHistory CallMode_Group None GroupCallStatus_Ringing 500)"
      and callEvent = "exampleEvent CallMode_Group None RemoteCallEvent_NotAccepted 600"
      and prevCallHistory = "exampleHistory CallMode_Group None GroupCallStatus_Deleted 500"]
  by (simp add: engine_defs example_defs)

subsection \<open>The timestamp policy\<close>

text \<open>
  Claim C4. From a prior record whose status is Accepted (direct or group), Joined
  (group) or Joined (adhoc), \<^verbatim>\<open>transitionTimestamp\<close> returns the later of the event's and
  the record's timestamps when the event is the remote Accepted event, and the record's
  timestamp otherwise.
\<close>

theorem accepted_timestamp_only_follows_remote_Accepted:
  assumes "status callHistory = DirectCallStatus_Accepted
         \<or> status callHistory = GroupCallStatus_Accepted
         \<or> status callHistory = GroupCallStatus_Joined
         \<or> status callHistory = AdhocCallStatus_Joined"
  shows "transitionTimestamp (Some callHistory) callEvent
          = Inr (if event callEvent = RemoteCallEvent_Accepted
                 then max (timestamp callEvent) (timestamp callHistory)
                 else timestamp callHistory)"
  using assms by (auto simp add: transitionTimestamp_def Let_def)

theorem accepted_timestamp_only_follows_remote_Accepted_witness:
  "status (exampleHistory CallMode_Group None GroupCallStatus_Accepted 500)
      = GroupCallStatus_Accepted
   \<and> transitionTimestamp
        (Some (exampleHistory CallMode_Group None GroupCallStatus_Accepted 500))
        (exampleEvent CallMode_Group None RemoteCallEvent_Accepted 600) = Inr 600
   \<and> transitionTimestamp
        (Some (exampleHistory CallMode_Group None GroupCallStatus_Accepted 500))
        (exampleEvent CallMode_Group None LocalCallEvent_Missed 400) = Inr 500"
  using accepted_timestamp_only_follows_remote_Accepted
      [where callHistory = "exampleHistory CallMode_Group None GroupCallStatus_Accepted 500"
         and callEvent = "exampleEvent CallMode_Group None RemoteCallEvent_Accepted 600"]
    accepted_timestamp_only_follows_remote_Accepted
      [where callHistory = "exampleHistory CallMode_Group None GroupCallStatus_Accepted 500"
         and callEvent = "exampleEvent CallMode_Group None LocalCallEvent_Missed 400"]
  by (simp add: example_defs)

text \<open>
  Claim C5. From a prior record whose status is transient (direct Pending or Missed,
  group GenericGroupCall, OutgoingRing, Ringing or Missed, adhoc Pending) the new timestamp
  is the later of the record's and the event's, for every event; the timestamp of the
  record returned is never below the prior one.
\<close>

theorem transient_timestamp_is_the_latest:
  assumes "status callHistory = DirectCallStatus_Pending
         \<or> status callHistory = DirectCallStatus_Missed
         \<or> status callHistory = GroupCallStatus_GenericGroupCall
         \<or> status callHistory = GroupCallStatus_OutgoingRing
         \<or> status callHistory = GroupCallStatus_Ringing
         \<or> status callHistory = GroupCallStatus_Missed
         \<or> status callHistory = AdhocCallStatus_Pending"
  shows "transitionTimestamp (Some callHistory) callEvent
           = Inr (max (timestamp callHistory) (timestamp callEvent))
    \<and> (\<forall>result. transitionCallHistory (Some callHistory) callEvent = Inr result \<longrightarrow>
          timestamp result = max (timestamp callHistory) (timestamp callEvent)
          \<and> timestamp callHistory \<le> timestamp result)"
proof -
  have ts: "transitionTimestamp (Some callHistory) callEvent
           = Inr (max (timestamp callHistory) (timestamp callEvent))"
    using assms by (auto simp add: transitionTimestamp_def Let_def)
  then show ?thesis
    by (auto simp add: transitionCallHistory_def Let_def split: sum.splits)
qed

theorem transient_timestamp_is_the_latest_witness:
  "status (exampleHistory CallMode_Group None GroupCallStatus_Ringing 500)
      = GroupCallStatus_Ringing
   \<and> transitionTimestamp
        (Some (exampleHistory CallMode_Group None GroupCallStatus_Ringing 500))
        (exampleEvent CallMode_Group None LocalCallEvent_Missed 650) = Inr 650
   \<and> transitionCallHistory
        (Some (exampleHistory CallMode_Group None GroupCallStatus_Ringing 500))
        (exampleEvent CallMode_Group None LocalCallEvent_Missed 650)
       = Inr (exampleHistory CallMode_Group None GroupCallStatus_Missed 650)
   \<and> timestamp (exampleHistory CallMode_Group None GroupCallStatus_Missed 650)
       = max 500 650"
  using transient_timestamp_is_the_latest
      [where callHistory = "exampleHistory CallMode_Group None GroupCallStatus_Ringing 500"
         and callEvent = "exampleEvent CallMode_Group None LocalCallEvent_Missed 650"]
  by (simp add: engine_defs example_defs)

subsection \<open>Replaying an event\<close>

text \<open>
  Replaying an event is not always a no-op. A group call joined at 500 that is missed at
  600 becomes Missed and keeps 500, since a joined record only takes a remote Accepted
  event's time; the same event replayed on that Missed record moves the timestamp to 600.
\<close>

theorem replay_moves_the_timestamp:
  "transitionCallHistory
     (Some (exampleHistory CallMode_Group None GroupCallStatus_Joined 500))
     (exampleEvent CallMode_Group None LocalCallEvent_Missed 600)
    = Inr (exampleHistory CallMode_Group None GroupCallStatus_Missed 500)
   \<and> transitionCallHistory
     (Some (exampleHistory CallMode_Group None GroupCallStatus_Missed 500))
     (exampleEvent CallMode_Group None LocalCallEvent_Missed 600)
    = Inr (exampleHistory CallMode_Group None GroupCallStatus_Missed 600)
   \<and> exampleHistory CallMode_Group None GroupCallStatus_Missed 600
      \<noteq> exampleHistory CallMode_Group None GroupCallStatus_Missed 500"
  by (simp add: engine_defs example_defs)

text \<open>
  Claim C6, amended. For every prior record (or none) and every event for which a first
  transition succeeds, applying the same event to the first result succeeds and yields
  the first result again but for its timestamp. The second result differs from the first
  exactly when the event's timestamp is later than the first result's and the first
  result's status is transient (Pending, Missed, GenericGroupCall, OutgoingRing, Ringing),
  or accepted or joined (Accepted, Joined, JoinedAdhoc) with the event the remote
  Accepted, or Declined with the event the remote NotAccepted; the timestamp is then the
  event's. In every other case the two results are equal, timestamp included: so for
  every delete event, whenever there was no prior record, whenever the first transition
  left the prior status as it was, and whenever the event is not later than the first
  result.
\<close>

theorem replay_settles:
  assumes "transitionCallHistory prior ev = Inr r1"
  shows "\<exists>r2. transitionCallHistory (Some r1) ev = Inr r2
           \<and> r2 = r1\<lparr> timestamp := timestamp r2 \<rparr>
           \<and> (r2 \<noteq> r1 \<longleftrightarrow>
                 timestamp r1 < timestamp ev
                 \<and> (status r1 = CallStatusValue_Pending \<or> status r1 = CallStatusValue_Missed
                      \<or> status r1 = CallStatusValue_GenericGroupCall
                      \<or> status r1 = CallStatusValue_OutgoingRing
                      \<or> status r1 = CallStatusValue_Ringing
                    \<or> (status r1 = CallStatusValue_Accepted \<or> status r1 = CallStatusValue_Joined
                          \<or> status r1 = CallStatusValue_JoinedAdhoc)
                       \<and> event ev = RemoteCallEvent_Accepted
                    \<or> status r1 = CallStatusValue_Declined
                       \<and> event ev = RemoteCallEvent_NotAccepted))
           \<and> (r2 \<noteq> r1 \<longrightarrow> timestamp r2 = timestamp ev)
           \<and> (timestamp r2 = timestamp r1 \<or> timestamp r2 = timestamp ev)
           \<and> timestamp r1 \<le> timestamp r2
           \<and> (prior = None \<or> map_option status prior = Some (status r1)
                 \<or> timestamp ev \<le> timestamp r1 \<longrightarrow> r2 = r1)"
proof -
  from assms obtain s t where
    st: "(case mode ev of
            CallMode_Direct \<Rightarrow>
              transitionDirectCallStatus (map_option status prior) (event ev) (direction ev)
          | CallMode_Group \<Rightarrow>
              transitionGroupCallStatus (map_option status prior) (event ev) (direction ev)
          | CallMode_Adhoc \<Rightarrow>
              transitionAdhocCallStatus (map_option status prior) (event ev) (direction ev))
         = Inr s"
    and ts: "transitionTimestamp prior ev = Inr t"
    and r1: "r1 = \<lparr> callId = callId ev, peerId = peerId ev, ringerId = ringerId ev,
                    mode = mode ev, type = type ev, direction = direction ev,
                    timestamp = t, status = s \<rparr>"
    unfolding transitionCallHistory_Inr_iff by blast
  obtain t2 where ts2: "transitionTimestamp (Some r1) ev = Inr t2"
    using transitionTimestamp_total by blast
  define r2 where "r2 = r1\<lparr> timestamp := t2 \<rparr>"
  have same: "assertSameCall (Some r1) ev = Inr ()"
    using assms by (rule assertSameCall_replay)
  have st2: "(case mode ev of
            CallMode_Direct \<Rightarrow>
              transitionDirectCallStatus (Some s) (event ev) (direction ev)
          | CallMode_Group \<Rightarrow>
              transitionGroupCallStatus (Some s) (event ev) (direction ev)
          | CallMode_Adhoc \<Rightarrow>
              transitionAdhocCallStatus (Some s) (event ev) (direction ev))
         = Inr s"
    using st transitionDirectCallStatus_replay transitionGroupCallStatus_replay
      transitionAdhocCallStatus_replay
    by (cases "mode ev") simp_all
  have s_eq: "map_option status (Some r1) = Some s"
    by (simp add: r1)
  have step: "transitionCallHistory (Some r1) ev = Inr r2"
    unfolding transitionCallHistory_Inr_iff s_eq
  proof (intro conjI exI [of _ s] exI [of _ t2])
    show "assertSameCall (Some r1) ev = Inr ()" by (rule same)
    show "transitionTimestamp (Some r1) ev = Inr t2" by (rule ts2)
    show "r2 = \<lparr> callId = callId ev, peerId = peerId ev, ringerId = ringerId ev,
                 mode = mode ev, type = type ev, direction = direction ev,
                 timestamp = t2, status = s \<rparr>"
      by (simp add: r2_def r1)
  qed (rule st2)
  have choice: "t2 = t \<or> t2 = max (timestamp ev) t"
    using transitionTimestamp_choice [OF ts2] by (simp add: r1)
  have none: "t2 = t" if "prior = None"
    using that ts choice by (auto simp add: transitionTimestamp_def Let_def)
  have settled: "t2 = t" if "map_option status prior = Some (status r1)"
  proof -
    from that obtain p where p: "prior = Some p" "status p = s"
      by (cases prior) (auto simp add: r1)
    have "transitionTimestamp (Some r1) ev = Inr t"
    proof (rule transitionTimestamp_same_status)
      show "transitionTimestamp (Some p) ev = Inr t" using ts p by simp
      show "status r1 = status p" using p by (simp add: r1)
      show "timestamp r1 = t" by (simp add: r1)
    qed
    with ts2 show ?thesis by simp
  qed
  have early: "t2 = t" if "timestamp ev \<le> timestamp r1"
    using that choice by (auto simp add: r1)
  have fields: "r2 = r1\<lparr> timestamp := timestamp r2 \<rparr>" "timestamp r2 = t2" "timestamp r1 = t"
    by (simp_all add: r2_def r1)
  have eq: "r2 = r1" if "t2 = t"
    using that by (simp add: r2_def r1)
  have neq: "r2 \<noteq> r1 \<longleftrightarrow> t2 \<noteq> timestamp r1"
    using fields(2,3) eq by auto
  have moved: "timestamp r2 = timestamp ev" if "r2 \<noteq> r1"
    using that choice eq fields(2) by (auto simp add: max_def split: if_splits)
  show ?thesis
  proof (intro exI [of _ r2] conjI impI)
    show "transitionCallHistory (Some r1) ev = Inr r2" by (rule step)
    show "r2 = r1\<lparr> timestamp := timestamp r2 \<rparr>" by (rule fields)
    show "r2 \<noteq> r1 \<longleftrightarrow>
            timestamp r1 < timestamp ev
            \<and> (status r1 = CallStatusValue_Pending \<or> status r1 = CallStatusValue_Missed
                 \<or> status r1 = CallStatusValue_GenericGroupCall
                 \<or> status r1 = CallStatusValue_OutgoingRing
                 \<or> status r1 = CallStatusValue_Ringing
               \<or> (status r1 = CallStatusValue_Accepted \<or> status r1 = CallStatusValue_Joined
                     \<or> status r1 = CallStatusValue_JoinedAdhoc)
                  \<and> event ev = RemoteCallEvent_Accepted
               \<or> status r1 = CallStatusValue_Declined
                  \<and> event ev = RemoteCallEvent_NotAccepted)"
      unfolding neq by (rule transitionTimestamp_moves [OF ts2])
    show "timestamp r2 = timestamp ev" if "r2 \<noteq> r1"
      using that by (rule moved)
    show "timestamp r2 = timestamp r1 \<or> timestamp r2 = timestamp ev"
      using choice fields(2,3) by auto
    show "timestamp r1 \<le> timestamp r2"
      using choice fields(2,3) by auto
    show "r2 = r1"
      if "prior = None \<or> map_option status prior = Some (status r1)
            \<or> timestamp ev \<le> timestamp r1"
      using that none settled early eq by blast
  qed
qed


theorem replay_settles_witness:
  "transitionCallHistory
     (Some (exampleHistory CallMode_Adhoc None AdhocCallStatus_Pending 10))
     (exampleEvent CallMode_Adhoc None LocalCallEvent_Accepted 20)
    = Inr (exampleHistory CallMode_Adhoc None AdhocCallStatus_Joined 20)
   \<and> transitionCallHistory
     (Some (exampleHistory CallMode_Adhoc None AdhocCallStatus_Joined 20))
     (exampleEvent CallMode_Adhoc None LocalCallEvent_Accepted 20)
    = Inr (exampleHistory CallMode_Adhoc None AdhocCallStatus_Joined 20)
   \<and> transitionCallHistory
     (Some (exampleHistory CallMode_Direct None DirectCallStatus_Accepted 500))
     (exampleEvent CallMode_Direct None LocalCallEvent_Delete 600)
    = Inr (exampleHistory CallMode_Direct None DirectCallStatus_Deleted 500)
   \<and> transitionCallHistory
     (Some (exampleHistory CallMode_Direct None DirectCallStatus_Deleted 500))
     (exampleEvent CallMode_Direct None LocalCallEvent_Delete 600)
    = Inr (exampleHistory CallMode_Direct None DirectCallStatus_Deleted 500)"
proof -
  have first: "transitionCallHistory
     (Some (exampleHistory CallMode_Adhoc None AdhocCallStatus_Pending 10))
     (exampleEvent CallMode_Adhoc None LocalCallEvent_Accepted 20)
    = Inr (exampleHistory CallMode_Adhoc None AdhocCallStatus_Joined 20)"
    by (simp add: engine_defs example_defs)
  have early: "\<not> timestamp (exampleHistory CallMode_Adhoc None AdhocCallStatus_Joined 20)
          < timestamp (exampleEvent CallMode_Adhoc None LocalCallEvent_Accepted 20)"
    by (simp add: example_defs)
  have deleting: "transitionCallHistory
     (Some (exampleHistory CallMode_Direct None DirectCallStatus_Accepted 500))
     (exampleEvent CallMode_Direct None LocalCallEvent_Delete 600)
    = Inr (exampleHistory CallMode_Direct None DirectCallStatus_Deleted 500)"
    by (simp add: engine_defs example_defs)
  have deleted: "status (exampleHistory CallMode_Direct None DirectCallStatus_Deleted 500)
      = CallStatusValue_Deleted"
    by (simp add: example_defs)
  from replay_settles [OF first] early
  have "transitionCallHistory
     (Some (exampleHistory CallMode_Adhoc None AdhocCallStatus_Joined 20))
     (exampleEvent CallMode_Adhoc None LocalCallEvent_Accepted 20)
    = Inr (exampleHistory CallMode_Adhoc None AdhocCallStatus_Joined 20)"
    by auto
  moreover from replay_settles [OF deleting] deleted
  have "transitionCallHistory
     (Some (exampleHistory CallMode_Direct None DirectCallStatus_Deleted 500))
     (exampleEvent CallMode_Direct None LocalCallEvent_Delete 600)
    = Inr (exampleHistory CallMode_Direct None DirectCallStatus_Deleted 500)"
    by auto
  ultimately show ?thesis
    using first deleting by simp
qed

subsection \<open>Hangups of a direct call\<close>

text \<open>
  Claim C7. In a direct call whose prior status is neither Deleted nor Accepted (no prior
  record included), a local Hangup event yields Declined when the call is incoming and
  Missed when outgoing, and a local RemoteHangup event yields Missed when incoming and
  Declined when outgoing. The pending incoming call of timestamp 100, hung up locally at
  150, becomes Declined with timestamp 150.
\<close>

theorem direct_hangup_by_direction:
  assumes "prevStatus \<noteq> Some DirectCallStatus_Deleted"
    and "prevStatus \<noteq> Some DirectCallStatus_Accepted"
  shows "transitionDirectCallStatus prevStatus LocalCallEvent_Hangup dir
           = Inr (if dir = CallDirection_Incoming then DirectCallStatus_Declined
                  else DirectCallStatus_Missed)
    \<and> transitionDirectCallStatus prevStatus LocalCallEvent_RemoteHangup dir
           = Inr (if dir = CallDirection_Incoming then DirectCallStatus_Missed
                  else DirectCallStatus_Declined)
    \<and> transitionCallHistory
         (Some (exampleHistory CallMode_Direct None DirectCallStatus_Pending 100))
         (exampleEvent CallMode_Direct None LocalCallEvent_Hangup 150)
        = Inr (exampleHistory CallMode_Direct None DirectCallStatus_Declined 150)"
  using assms
  by (simp add: engine_defs example_defs)

theorem direct_hangup_by_direction_witness:
  "Some DirectCallStatus_Pending \<noteq> Some DirectCallStatus_Deleted
   \<and> Some DirectCallStatus_Pending \<noteq> Some DirectCallStatus_Accepted
   \<and> transitionDirectCallStatus (Some DirectCallStatus_Pending) LocalCallEvent_Hangup
        CallDirection_Outgoing = Inr DirectCallStatus_Missed
   \<and> transitionDirectCallStatus (Some DirectCallStatus_Pending) LocalCallEvent_RemoteHangup
        CallDirection_Outgoing = Inr DirectCallStatus_Declined"
  using direct_hangup_by_direction [where prevStatus = "Some DirectCallStatus_Pending"
      and dir = CallDirection_Outgoing]
  by simp

subsection \<open>Identity of a call\<close>

text \<open>
  Claim C8. For every prior record and every event whose call id, peer id, direction,
  type or mode differs from the record's, \<^verbatim>\<open>transitionCallHistory\<close> fails with an
  assertion error; no record is returned.
\<close>

theorem mismatched_identity_fails:
  assumes "callId callEvent \<noteq> callId callHistory
         \<or> peerId callEvent \<noteq> peerId callHistory
         \<or> direction callEvent \<noteq> direction callHistory
         \<or> type callEvent \<noteq> type callHistory
         \<or> mode callEvent \<noteq> mode callHistory"
  shows "\<exists>message. transitionCallHistory (Some callHistory) callEvent
           = Inl (AssertionError message)"
  using assms
  by (auto simp add: transitionCallHistory_def assertSameCall_def strictAssert_def)

theorem mismatched_identity_fails_witness:
  "callId ((exampleEvent CallMode_Direct None LocalCallEvent_Accepted 200)\<lparr> callId := ''2'' \<rparr>)
      \<noteq> callId (exampleHistory CallMode_Direct None DirectCallStatus_Pending 100)
   \<and> transitionCallHistory
        (Some (exampleHistory CallMode_Direct None DirectCallStatus_Pending 100))
        ((exampleEvent CallMode_Direct None LocalCallEvent_Accepted 200)\<lparr> callId := ''2'' \<rparr>)
       = Inl (AssertionError ''callId must be same'')"
  using mismatched_identity_fails
      [where callHistory = "exampleHistory CallMode_Direct None DirectCallStatus_Pending 100"
         and callEvent = "(exampleEvent CallMode_Direct None LocalCallEvent_Accepted 200)
                            \<lparr> callId := ''2'' \<rparr>"]
  by (simp add: engine_defs example_defs)

subsection \<open>The scenarios of the specification\<close>

text \<open>
  Scenario A: the first event of a direct call, Ringing at 100, gives Pending at 100.
\<close>

lemma scenario_A:
  "transitionCallHistory None (exampleEvent CallMode_Direct None LocalCallEvent_Ringing 100)
     = Inr (exampleHistory CallMode_Direct None DirectCallStatus_Pending 100)"
  by (simp add: engine_defs example_defs)

text \<open>
  Scenarios C and D: an accepted group call of timestamp 500 stays Accepted at 500 on a
  local Missed event of 400, and moves to 600 on a remote Accepted event of 600.
\<close>

lemma scenario_C:
  "transitionCallHistory
     (Some (exampleHistory CallMode_Group None GroupCallStatus_Accepted 500))
     (exampleEvent CallMode_Group None LocalCallEvent_Missed 400)
    = Inr (exampleHistory CallMode_Group None GroupCallStatus_Accepted 500)"
  by (simp add: engine_defs example_defs)

lemma scenario_D:
  "transitionCallHistory
     (Some (exampleHistory CallMode_Group None GroupCallStatus_Accepted 500))
     (exampleEvent CallMode_Group None RemoteCallEvent_Accepted 600)
    = Inr (exampleHistory CallMode_Group None GroupCallStatus_Accepted 600)"
  by (simp add: engine_defs example_defs)

text \<open>
  Scenario F: a remote NotAccepted event as the first event of a group call raises the
  error of the group status machine.
\<close>

lemma scenario_F:
  "transitionCallHistory None
     (exampleEvent CallMode_Group None RemoteCallEvent_NotAccepted 100)
    = Inl (PlainError ''callHistoryDetails: Group calls shouldn't send NotAccepted'')"
  by (simp add: engine_defs example_defs)

section \<open>Properties of the sync and of the timestamp update\<close>

text \<open>
  Claim C9. A status is synced exactly when it is Accepted, Declined, Deleted or
  JoinedAdhoc, which go on the wire as ACCEPTED, NOT_ACCEPTED, DELETE and ACCEPTED. For a
  record whose status is Pending, Missed, Ringing, GenericGroupCall, OutgoingRing or
  Joined, \<^verbatim>\<open>shouldSyncStatus\<close> is false and \<^verbatim>\<open>updateRemoteCallHistory\<close> leaves the job
  queue as it was; for a record of a synced status it adds one job, carrying the wire
  event of the status.
\<close>

theorem sync_only_settled_statuses:
  "(shouldSyncStatus callStatus \<longleftrightarrow>
      callStatus = CallStatusValue_Accepted \<or> callStatus = CallStatusValue_Declined
      \<or> callStatus = CallStatusValue_Deleted \<or> callStatus = CallStatusValue_JoinedAdhoc)
   \<and> statusToProto CallStatusValue_Accepted = Some Proto_Event_ACCEPTED
   \<and> statusToProto CallStatusValue_Declined = Some Proto_Event_NOT_ACCEPTED
   \<and> statusToProto CallStatusValue_Deleted = Some Proto_Event_DELETE
   \<and> statusToProto CallStatusValue_JoinedAdhoc = Some Proto_Event_ACCEPTED
   \<and> (status callHistory = CallStatusValue_Pending
        \<or> status callHistory = CallStatusValue_Missed
        \<or> status callHistory = CallStatusValue_Ringing
        \<or> status callHistory = CallStatusValue_GenericGroupCall
        \<or> status callHistory = CallStatusValue_OutgoingRing
        \<or> status callHistory = CallStatusValue_Joined
       \<longrightarrow> \<not> shouldSyncStatus (status callHistory)
           \<and> updateRemoteCallHistory uuidDecoder base64Decoder ourAci callHistory queue = queue)
   \<and> (shouldSyncStatus (status callHistory) \<longrightarrow>
        (\<exists>job. updateRemoteCallHistory uuidDecoder base64Decoder (Some aci) callHistory queue
                 = queue @ [job]
             \<and> Some (proto_event (job_callEvent job)) = statusToProto (status callHistory)))"
proof -
  have sync: "shouldSyncStatus s \<longleftrightarrow>
      s = CallStatusValue_Accepted \<or> s = CallStatusValue_Declined
      \<or> s = CallStatusValue_Deleted \<or> s = CallStatusValue_JoinedAdhoc" for s
    by (cases s) (simp_all add: shouldSyncStatus_def)
  have quiet: "updateRemoteCallHistory uuidDecoder base64Decoder ourAci callHistory queue = queue"
    if "\<not> shouldSyncStatus (status callHistory)"
    using that by (simp add: updateRemoteCallHistory_def)
  have queued: "\<exists>job. updateRemoteCallHistory uuidDecoder base64Decoder (Some aci) callHistory queue
                 = queue @ [job]
             \<and> Some (proto_event (job_callEvent job)) = statusToProto (status callHistory)"
    if "shouldSyncStatus (status callHistory)"
    using that
    by (cases "statusToProto (status callHistory)")
       (simp_all add: updateRemoteCallHistory_def getProtoForCallHistory_def
          shouldSyncStatus_def)
  show ?thesis
    using sync quiet queued by auto
qed

theorem sync_only_settled_statuses_witness:
  "\<not> shouldSyncStatus CallStatusValue_Missed
   \<and> status (exampleHistory CallMode_Direct None DirectCallStatus_Missed 100)
       = CallStatusValue_Missed
   \<and> updateRemoteCallHistory (\<lambda>s. []) (\<lambda>s. []) (Some ''aci'')
        (exampleHistory CallMode_Direct None DirectCallStatus_Missed 100) [] = []"
  using sync_only_settled_statuses [where callStatus = CallStatusValue_Missed
      and callHistory = "exampleHistory CallMode_Direct None DirectCallStatus_Missed 100"
      and uuidDecoder = "\<lambda>s. []" and base64Decoder = "\<lambda>s. []" and ourAci = "Some ''aci''"
      and queue = "[]" and aci = "''aci''"]
  by (simp add: example_defs)

text \<open>
  Claim C10. \<^verbatim>\<open>updateLocalGroupCallHistoryTimestamp\<close> never raises a stored timestamp.
  It returns \<^verbatim>\<open>null\<close> and leaves the state alone when the conversation is unknown or has
  no record of the call; it returns the stored record and leaves the state alone when the
  given timestamp is not below the stored one; and when the given timestamp is below it,
  it saves and returns the stored record with the given timestamp, every other field
  unchanged.
\<close>

theorem group_timestamp_is_only_lowered:
  "(conversations state conversationId = None \<longrightarrow>
      updateLocalGroupCallHistoryTimestamp isAciString conversationId theCallId newTimestamp state
        = Inr (None, state))
   \<and> (conversations state conversationId = Some conversation
        \<and> getPeerIdFromConversation isAciString conversation = Inr thePeerId \<longrightarrow>
       (callHistoryTable state (theCallId, thePeerId) = None \<longrightarrow>
          updateLocalGroupCallHistoryTimestamp isAciString conversationId theCallId
              newTimestamp state
            = Inr (None, state))
       \<and> (\<forall>prev. callHistoryTable state (theCallId, thePeerId) = Some prev \<longrightarrow>
            (timestamp prev \<le> newTimestamp \<longrightarrow>
               updateLocalGroupCallHistoryTimestamp isAciString conversationId theCallId
                   newTimestamp state
                 = Inr (Some prev, state))
            \<and> (newTimestamp < timestamp prev \<longrightarrow>
               updateLocalGroupCallHistoryTimestamp isAciString conversationId theCallId
                   newTimestamp state
                 = Inr (Some (prev\<lparr> timestamp := newTimestamp \<rparr>),
                        state\<lparr> callHistoryTable :=
                                 (callHistoryTable state)
                                   ((callId prev, peerId prev) \<mapsto>
                                      prev\<lparr> timestamp := newTimestamp \<rparr>),
                               savedCallHistory :=
                                 savedCallHistory state @ [prev\<lparr> timestamp := newTimestamp \<rparr>]
                             \<rparr>))))"
  by (auto simp add: updateLocalGroupCallHistoryTimestamp_def saveCallHistory_def)

theorem group_timestamp_is_only_lowered_witness:
  "conversations exampleState ''conv''
     = Some \<lparr> conversation_type = Kind_group, serviceId = None, groupId = Some ''peer'' \<rparr>
   \<and> getPeerIdFromConversation (\<lambda>s. True)
        \<lparr> conversation_type = Kind_group, serviceId = None, groupId = Some ''peer'' \<rparr>
       = Inr ''peer''
   \<and> callHistoryTable exampleState (''1'', ''peer'')
       = Some (exampleHistory CallMode_Group None GroupCallStatus_Ringing 500)
   \<and> updateLocalGroupCallHistoryTimestamp (\<lambda>s. True) ''conv'' ''1'' 400 exampleState
       = Inr (Some (exampleHistory CallMode_Group None GroupCallStatus_Ringing 400),
              exampleState\<lparr> callHistoryTable :=
                 [(''1'', ''peer'') \<mapsto>
                    exampleHistory CallMode_Group None GroupCallStatus_Ringing 400],
                 savedCallHistory :=
                   [exampleHistory CallMode_Group None GroupCallStatus_Ringing 400] \<rparr>)
   \<and> updateLocalGroupCallHistoryTimestamp (\<lambda>s. True) ''conv'' ''1'' 900 exampleState
       = Inr (Some (exampleHistory CallMode_Group None GroupCallStatus_Ringing 500),
              exampleState)
   \<and> updateLocalGroupCallHistoryTimestamp (\<lambda>s. True) ''conv'' ''2'' 400 exampleState
       = Inr (None, exampleState)
   \<and> updateLocalGroupCallHistoryTimestamp (\<lambda>s. True) ''other'' ''1'' 400 exampleState
       = Inr (None, exampleState)"
  using group_timestamp_is_only_lowered [where state = exampleState
      and conversationId = "''conv''" and theCallId = "''1''" and newTimestamp = 400
      and isAciString = "\<lambda>s. True" and thePeerId = "''peer''"
      and conversation = "\<lparr> conversation_type = Kind_group, serviceId = None,
                            groupId = Some ''peer'' \<rparr>"]
    group_timestamp_is_only_lowered [where state = exampleState
      and conversationId = "''conv''" and theCallId = "''1''" and newTimestamp = 900
      and isAciString = "\<lambda>s. True" and thePeerId = "''peer''"
      and conversation = "\<lparr> conversation_type = Kind_group, serviceId = None,
                            groupId = Some ''peer'' \<rparr>"]
    group_timestamp_is_only_lowered [where state = exampleState
      and conversationId = "''conv''" and theCallId = "''2''" and newTimestamp = 400
      and isAciString = "\<lambda>s. True" and thePeerId = "''peer''"
      and conversation = "\<lparr> conversation_type = Kind_group, serviceId = None,
                            groupId = Some ''peer'' \<rparr>"]
    group_timestamp_is_only_lowered [where state = exampleState
      and conversationId = "''other''" and theCallId = "''1''" and newTimestamp = 400
      and isAciString = "\<lambda>s. True"]
  by (simp add: exampleState_def example_defs getPeerIdFromConversation_def)

end
